theory Spec2Isabelle
  imports Complex_Main "HOL-Library.Char_ord" "HOL-Library.List_Lexorder"
    "HOL-Library.Product_Lexorder"
begin

section \<open>The document-store backend: documents and collections\<close>

text \<open>
  The Express routes of \<^verbatim>\<open>mongodb-implementation/routes\<close> work on Mongoose models.
  A collection is the list of its documents, in insertion order; \<^verbatim>\<open>findOne\<close> and
  \<^verbatim>\<open>findById\<close> return the first match. An ObjectId is a natural number (request
  parameters are taken as already cast). A JavaScript \<^verbatim>\<open>Number\<close> that holds a rating
  is an exact rational: ratings are small integers, their sum is exact, and the one
  division returns the double nearest the exact quotient. Dates are epoch integers.
  Of every schema only the fields are kept that one of the modelled operations reads or
  writes (\<^verbatim>\<open>notes\<close>, \<^verbatim>\<open>videoRoomId\<close>, the timestamps and the descriptive fields of a
  doctor profile are left out).
\<close>

type_synonym oid = nat

record user =
  u_id :: oid
  email :: string
  passwordHash :: string
  fullName :: string
  role :: string

record doctorProfile =
  dp_id :: oid
  userId :: oid
  rating :: rat
  totalConsultations :: int

record appointment =
  a_id :: oid
  patientId :: oid
  doctorId :: oid
  appointmentDate :: int
  appointmentTime :: string
  status :: string
  reason :: string

record notification =
  n_userId :: oid
  title :: string
  message :: string
  n_type :: string
  relatedId :: oid

record review =
  r_doctorId :: oid
  r_rating :: rat

record store =
  users :: "user list"
  doctorProfiles :: "doctorProfile list"
  appointments :: "appointment list"
  notifications :: "notification list"
  reviews :: "review list"

text \<open>
  What a handler sends. \<^verbatim>\<open>res.status(c).json({success: false, message: m})\<close> is
  \<open>Failure c m\<close>; the \<^verbatim>\<open>catch\<close> branch of every handler, status 500 with the message
  of the error that was thrown, is \<open>Thrown e\<close>; a body with \<^verbatim>\<open>success: true\<close> is
  \<open>Success c p\<close>.
\<close>

datatype thrown =
  ValidationError "string list"
  | TypeError
  | Error string

datatype payload =
  AppointmentDoc appointment
  | AppointmentList nat "appointment list"
  | Session string user

datatype response =
  Failure nat string
  | Thrown thrown
  | Success nat payload

fun succeeded :: "response \<Rightarrow> bool" where
  "succeeded (Success c p) = True"
| "succeeded (Failure c m) = False"
| "succeeded (Thrown e) = False"

fun status_code :: "response \<Rightarrow> nat" where
  "status_code (Success c p) = c"
| "status_code (Failure c m) = c"
| "status_code (Thrown e) = 500"

subsection \<open>Queries and writes\<close>

definition findUserByEmail :: "string \<Rightarrow> user list \<Rightarrow> user option" where
  "findUserByEmail e us = find (\<lambda>u. email u = e) us"

definition findUserById :: "oid \<Rightarrow> user list \<Rightarrow> user option" where
  "findUserById i us = find (\<lambda>u. u_id u = i) us"

definition findProfileByUser :: "oid \<Rightarrow> doctorProfile list \<Rightarrow> doctorProfile option" where
  "findProfileByUser uid ps = find (\<lambda>p. userId p = uid) ps"

definition findProfileById :: "oid \<Rightarrow> doctorProfile list \<Rightarrow> doctorProfile option" where
  "findProfileById i ps = find (\<lambda>p. dp_id p = i) ps"

definition findAppointmentById :: "oid \<Rightarrow> appointment list \<Rightarrow> appointment option" where
  "findAppointmentById i as = find (\<lambda>a. a_id a = i) as"

text \<open>\<^verbatim>\<open>doc.save()\<close> of a document that was read from the collection: the stored
  document with the same \<^verbatim>\<open>_id\<close> is replaced.\<close>

fun saveAppointment :: "appointment \<Rightarrow> appointment list \<Rightarrow> appointment list" where
  "saveAppointment a [] = []"
| "saveAppointment a (x # xs) =
     (if a_id x = a_id a then a # xs else x # saveAppointment a xs)"

fun saveProfile :: "doctorProfile \<Rightarrow> doctorProfile list \<Rightarrow> doctorProfile list" where
  "saveProfile d [] = []"
| "saveProfile d (x # xs) =
     (if dp_id x = dp_id d then d # xs else x # saveProfile d xs)"

text \<open>\<^verbatim>\<open>DoctorProfile.findByIdAndUpdate(id, {$inc: {totalConsultations: 1}})\<close>: the
  first profile with that id is updated, and nothing happens when there is none.\<close>

fun incTotalConsultations :: "oid \<Rightarrow> doctorProfile list \<Rightarrow> doctorProfile list" where
  "incTotalConsultations i [] = []"
| "incTotalConsultations i (x # xs) =
     (if dp_id x = i then x\<lparr>totalConsultations := totalConsultations x + 1\<rparr> # xs
      else x # incTotalConsultations i xs)"

section \<open>Model methods\<close>

text \<open>\<^verbatim>\<open>appointmentSchema.methods.canBeModified\<close> and \<^verbatim>\<open>complete\<close>. The second one
  throws unless the appointment is confirmed, then stores the status and increments the
  doctor's counter. No route calls it.\<close>

definition canBeModified :: "appointment \<Rightarrow> bool" where
  "canBeModified a = (status a \<in> set [''pending'', ''confirmed''])"

definition complete :: "store \<Rightarrow> appointment \<Rightarrow> thrown + store" where
  "complete st a =
     (if status a \<noteq> ''confirmed''
      then Inl (Error ''Only confirmed appointments can be completed'')
      else Inr (st\<lparr>appointments := saveAppointment (a\<lparr>status := ''completed''\<rparr>) (appointments st),
                   doctorProfiles := incTotalConsultations (doctorId a) (doctorProfiles st)\<rparr>))"

text \<open>
  \<^verbatim>\<open>doctorProfileSchema.methods.updateRating(newRating)\<close>. The reviews of this doctor
  are read; with none the rating becomes \<open>newRating\<close>, otherwise the sum of the ratings
  (a left fold from 0) divided by their number. \<^verbatim>\<open>this.save()\<close> runs the schema's
  validators of the changed path, \<^verbatim>\<open>min: 0\<close> and \<^verbatim>\<open>max: 5\<close>, and throws when one
  fails, in which case nothing is stored.
\<close>

definition validateRating :: "rat \<Rightarrow> string list" where
  "validateRating x =
     (if x < 0 then [''Rating cannot be less than 0'']
      else if 5 < x then [''Rating cannot exceed 5'']
      else [])"

definition updateRating :: "store \<Rightarrow> doctorProfile \<Rightarrow> rat \<Rightarrow> thrown + store" where
  "updateRating st this newRating =
     (let found = filter (\<lambda>r. r_doctorId r = dp_id this) (reviews st);
          this' =
            (if length found = 0 then this\<lparr>rating := newRating\<rparr>
             else this\<lparr>rating :=
                    foldl (\<lambda>sum r. sum + r_rating r) 0 found / of_nat (length found)\<rparr>)
      in if validateRating (rating this') \<noteq> []
         then Inl (ValidationError (validateRating (rating this')))
         else Inr (st\<lparr>doctorProfiles := saveProfile this' (doctorProfiles st)\<rparr>))"

section \<open>Casting and schema validation of a new appointment\<close>

text \<open>
  \<^verbatim>\<open>Appointment.create\<close> casts every field of the document to the type
  \<^verbatim>\<open>appointmentSchema\<close> declares, runs the schema's setters and validators, and throws
  a validation error, storing nothing, when a cast or a validator fails. The casts
  (to an ObjectId, to a Date, to a String) are the driver's and not part of the
  sources, so they are parameters: \<open>'j\<close> is the type of the values a parsed request
  body holds, and a cast answers with the error message of a failed cast, with the cast
  value, or with \<open>Nullish\<close> where it yields \<^verbatim>\<open>null\<close> or \<^verbatim>\<open>undefined\<close>. A field the body
  does not carry is \<open>None\<close> and is nullish.
\<close>

datatype 'a casted = CastFailed string | Nullish | Casted 'a

record 'j casts =
  castObjectId :: "'j \<Rightarrow> oid casted"
  castDate :: "'j \<Rightarrow> int casted"
  castString :: "'j \<Rightarrow> string casted"

record 'j appointment_body =
  b_doctorId :: "'j option"
  b_appointmentDate :: "'j option"
  b_appointmentTime :: "'j option"
  b_reason :: "'j option"

definition castField :: "('j \<Rightarrow> 'a casted) \<Rightarrow> 'j option \<Rightarrow> 'a casted" where
  "castField cast field = (case field of None \<Rightarrow> Nullish | Some j \<Rightarrow> cast j)"

text \<open>The \<^verbatim>\<open>match\<close> of \<^verbatim>\<open>appointmentTime\<close>,
  \<^verbatim>\<open>/^([0-1]?[0-9]|2[0-3]):[0-5][0-9]$/\<close>.\<close>

definition digit_upto :: "char \<Rightarrow> char \<Rightarrow> bool" where
  "digit_upto hi c = (CHR ''0'' \<le> c \<and> c \<le> hi)"

fun matchesTime :: "string \<Rightarrow> bool" where
  "matchesTime [h, c, m1, m2] =
     (digit_upto CHR ''9'' h \<and> c = CHR '':'' \<and> digit_upto CHR ''5'' m1 \<and> digit_upto CHR ''9'' m2)"
| "matchesTime [h1, h2, c, m1, m2] =
     (((digit_upto CHR ''1'' h1 \<and> digit_upto CHR ''9'' h2)
        \<or> (h1 = CHR ''2'' \<and> digit_upto CHR ''3'' h2))
      \<and> c = CHR '':'' \<and> digit_upto CHR ''5'' m1 \<and> digit_upto CHR ''9'' m2)"
| "matchesTime s = False"

text \<open>
  The setter \<^verbatim>\<open>trim\<close> of \<^verbatim>\<open>reason\<close> is \<^verbatim>\<open>String.prototype.trim\<close>: it removes the
  white space and line terminators of ECMAScript from both ends. A string is the list
  of the bytes of its UTF-8 encoding, so these code points are one, two or three bytes:
  U+0009 to U+000D and U+0020; U+00A0 (\<open>C2 A0\<close>); U+1680 (\<open>E1 9A 80\<close>); U+2000 to
  U+200A, U+2028, U+2029 and U+202F (\<open>E2 80\<close> followed by \<open>80\<close> to \<open>8A\<close>, \<open>A8\<close>,
  \<open>A9\<close>, \<open>AF\<close>); U+205F (\<open>E2 81 9F\<close>); U+3000 (\<open>E3 80 80\<close>); U+FEFF
  (\<open>EF BB BF\<close>). The first byte of each encoding is no continuation byte, so a
  well-formed string that ends with one of them ends with that code point.
\<close>

definition space1 :: "char \<Rightarrow> bool" where
  "space1 a = (a \<in> set [CHR 0x09, CHR 0x0A, CHR 0x0B, CHR 0x0C, CHR 0x0D, CHR 0x20])"

definition space2 :: "char \<Rightarrow> char \<Rightarrow> bool" where
  "space2 a b = (a = CHR 0xC2 \<and> b = CHR 0xA0)"

definition space3 :: "char \<Rightarrow> char \<Rightarrow> char \<Rightarrow> bool" where
  "space3 a b c =
     ((a = CHR 0xE1 \<and> b = CHR 0x9A \<and> c = CHR 0x80)
      \<or> (a = CHR 0xE2 \<and> b = CHR 0x80
           \<and> ((CHR 0x80 \<le> c \<and> c \<le> CHR 0x8A) \<or> c = CHR 0xA8 \<or> c = CHR 0xA9 \<or> c = CHR 0xAF))
      \<or> (a = CHR 0xE2 \<and> b = CHR 0x81 \<and> c = CHR 0x9F)
      \<or> (a = CHR 0xE3 \<and> b = CHR 0x80 \<and> c = CHR 0x80)
      \<or> (a = CHR 0xEF \<and> b = CHR 0xBB \<and> c = CHR 0xBF))"

fun trimStart :: "string \<Rightarrow> string" where
  "trimStart (a # b # c # rest) =
     (if space1 a then trimStart (b # c # rest)
      else if space2 a b then trimStart (c # rest)
      else if space3 a b c then trimStart rest
      else a # b # c # rest)"
| "trimStart [a, b] =
     (if space1 a then trimStart [b] else if space2 a b then [] else [a, b])"
| "trimStart [a] = (if space1 a then [] else [a])"
| "trimStart [] = []"

text \<open>The same from the end, on the reversed string: \<open>c\<close> is the last byte.\<close>

fun trimEndReversed :: "string \<Rightarrow> string" where
  "trimEndReversed (c # b # a # rest) =
     (if space1 c then trimEndReversed (b # a # rest)
      else if space2 b c then trimEndReversed (a # rest)
      else if space3 a b c then trimEndReversed rest
      else c # b # a # rest)"
| "trimEndReversed [c, b] =
     (if space1 c then trimEndReversed [b] else if space2 b c then [] else [c, b])"
| "trimEndReversed [c] = (if space1 c then [] else [c])"
| "trimEndReversed [] = []"

definition trim :: "string \<Rightarrow> string" where
  "trim s = rev (trimEndReversed (rev (trimStart s)))"

text \<open>
  The errors of the four paths the request fills, in the order of the schema; the
  driver joins them into the message of the error it throws. A failed cast is the
  path's error. \<^verbatim>\<open>required\<close> refuses a nullish value and, for a string, the empty
  one; \<^verbatim>\<open>match\<close> is tested on a string that is not empty. \<^verbatim>\<open>patientId\<close> is the id
  of the authenticated user and \<^verbatim>\<open>status\<close> is \<open>pending\<close>, which the enum has.
\<close>

definition validateAppointment :: "'j casts \<Rightarrow> 'j appointment_body \<Rightarrow> string list" where
  "validateAppointment driver b =
     (case castField (castObjectId driver) (b_doctorId b) of
        CastFailed m \<Rightarrow> [m]
      | Nullish \<Rightarrow> [''Doctor ID is required'']
      | Casted d \<Rightarrow> [])
     @ (case castField (castDate driver) (b_appointmentDate b) of
          CastFailed m \<Rightarrow> [m]
        | Nullish \<Rightarrow> [''Appointment date is required'']
        | Casted d \<Rightarrow> [])
     @ (case castField (castString driver) (b_appointmentTime b) of
          CastFailed m \<Rightarrow> [m]
        | Nullish \<Rightarrow> [''Appointment time is required'']
        | Casted t \<Rightarrow>
            if t = [] then [''Appointment time is required'']
            else if matchesTime t then []
            else [''Please provide time in HH:mm format''])
     @ (case castField (castString driver) (b_reason b) of
          CastFailed m \<Rightarrow> [m]
        | Nullish \<Rightarrow> [''Reason for appointment is required'']
        | Casted r \<Rightarrow> if trim r = [] then [''Reason for appointment is required''] else [])"

section \<open>Route handlers\<close>

subsection \<open>POST /api/auth/register\<close>

text \<open>
  The \<^verbatim>\<open>User\<close> model and \<^verbatim>\<open>generateToken\<close> are required from files that are not part
  of the sources, so \<^verbatim>\<open>User.create\<close> (which returns the stored document or throws with
  a message) and \<^verbatim>\<open>generateToken\<close> are parameters of the handler. A field of the body
  is falsy when it is missing or the empty string.
\<close>

record register_body =
  b_email :: "string option"
  b_password :: "string option"
  b_fullName :: "string option"
  b_role :: "string option"

definition falsy :: "string option \<Rightarrow> bool" where
  "falsy v = (case v of None \<Rightarrow> True | Some s \<Rightarrow> s = [])"

definition post_register ::
  "(string \<Rightarrow> string \<Rightarrow> string \<Rightarrow> string \<Rightarrow> string + user) \<Rightarrow> (oid \<Rightarrow> string)
    \<Rightarrow> store \<Rightarrow> register_body \<Rightarrow> store \<times> response" where
  "post_register userCreate generateToken st b =
     (case (b_email b, b_password b, b_fullName b, b_role b) of
        (Some e, Some p, Some f, Some r) \<Rightarrow>
          if e = [] \<or> p = [] \<or> f = [] \<or> r = []
          then (st, Failure 400 ''Please provide all required fields'')
          else (case findUserByEmail e (users st) of
                  Some existingUser \<Rightarrow> (st, Failure 400 ''Email already registered'')
                | None \<Rightarrow>
                    (case userCreate e p f r of
                       Inl msg \<Rightarrow> (st, Thrown (Error msg))
                     | Inr u \<Rightarrow>
                         (st\<lparr>users := users st @ [u]\<rparr>,
                          Success 201 (Session (generateToken (u_id u)) u))))
      | _ \<Rightarrow> (st, Failure 400 ''Please provide all required fields''))"

subsection \<open>GET /api/appointments\<close>

text \<open>
  \<^verbatim>\<open>req.user\<close> is the user the \<^verbatim>\<open>authenticate\<close> middleware attached. The query is
  \<^verbatim>\<open>{patientId}\<close> for a patient, \<^verbatim>\<open>{doctorId}\<close> of the caller's profile for a doctor and
  empty for every other role; the result is sorted by date, then time. The populated
  references are not part of the model: the payload keeps the ids.
\<close>

definition listing :: "appointment list \<Rightarrow> response" where
  "listing found =
     (let sorted_found = sort_key (\<lambda>a. (appointmentDate a, appointmentTime a)) found
      in Success 200 (AppointmentList (length sorted_found) sorted_found))"

definition get_appointments :: "store \<Rightarrow> user \<Rightarrow> response" where
  "get_appointments st u =
     (if role u = ''patient''
      then listing (filter (\<lambda>a. patientId a = u_id u) (appointments st))
      else if role u = ''doctor''
      then (case findProfileByUser (u_id u) (doctorProfiles st) of
              None \<Rightarrow> Failure 404 ''Doctor profile not found''
            | Some doctorProfile \<Rightarrow>
                listing (filter (\<lambda>a. doctorId a = dp_id doctorProfile) (appointments st)))
      else listing (appointments st))"

fun returned :: "response \<Rightarrow> appointment list" where
  "returned (Success c (AppointmentList n found)) = found"
| "returned r = []"

subsection \<open>POST /api/appointments\<close>

text \<open>
  The handler behind \<^verbatim>\<open>authenticate\<close> and \<^verbatim>\<open>authorize('patient')\<close>. \<open>driver\<close> holds
  the casts, \<open>new_id\<close> is the \<^verbatim>\<open>_id\<close> the driver gives the new document. The
  appointment is cast, validated and stored first; then the doctor's profile is looked
  up by the same id with its user populated, and only when a profile is found a
  notification for that user is stored. \<^verbatim>\<open>doctor.userId._id\<close> throws a TypeError when
  the profile's user does not exist, after the appointment has been stored.
\<close>

definition post_appointments ::
  "'j casts \<Rightarrow> oid \<Rightarrow> store \<Rightarrow> user \<Rightarrow> 'j appointment_body \<Rightarrow> store \<times> response" where
  "post_appointments driver new_id st u b =
     (case (castField (castObjectId driver) (b_doctorId b),
            castField (castDate driver) (b_appointmentDate b),
            castField (castString driver) (b_appointmentTime b),
            castField (castString driver) (b_reason b)) of
        (Casted d, Casted date, Casted time, Casted r) \<Rightarrow>
          if validateAppointment driver b \<noteq> []
          then (st, Thrown (ValidationError (validateAppointment driver b)))
          else
            (let appointment =
                   \<lparr>a_id = new_id, patientId = u_id u, doctorId = d, appointmentDate = date,
                    appointmentTime = time, status = ''pending'', reason = trim r\<rparr>;
                 st1 = st\<lparr>appointments := appointments st @ [appointment]\<rparr>
             in case findProfileById d (doctorProfiles st1) of
                  None \<Rightarrow> (st1, Success 201 (AppointmentDoc appointment))
                | Some doctor \<Rightarrow>
                    (case findUserById (userId doctor) (users st1) of
                       None \<Rightarrow> (st1, Thrown TypeError)
                     | Some doctorUser \<Rightarrow>
                         (st1\<lparr>notifications := notifications st1 @
                             [\<lparr>n_userId = u_id doctorUser,
                               title = ''New Appointment Request'',
                               message = fullName u @ '' has requested an appointment'',
                               n_type = ''appointment'',
                               relatedId = a_id appointment\<rparr>]\<rparr>,
                          Success 201 (AppointmentDoc appointment))))
      | _ \<Rightarrow> (st, Thrown (ValidationError (validateAppointment driver b))))"

subsection \<open>PATCH /api/appointments/:id/status\<close>

text \<open>
  The only check on the requested status is membership in the four-element list; the
  current status of the appointment is not read. A doctor must own the appointment
  through the profile found for \<^verbatim>\<open>req.user._id\<close>; no other role is checked. The four
  accepted values are in the schema's enum, so \<^verbatim>\<open>appointment.save()\<close> stores the
  document. One notification for the appointment's patient follows.
\<close>

definition patch_status :: "store \<Rightarrow> user \<Rightarrow> oid \<Rightarrow> string \<Rightarrow> store \<times> response" where
  "patch_status st u i requested =
     (if requested \<notin> set [''confirmed'', ''cancelled'', ''completed'', ''rescheduled'']
      then (st, Failure 400 ''Invalid status'')
      else
        (case findAppointmentById i (appointments st) of
           None \<Rightarrow> (st, Failure 404 ''Appointment not found'')
         | Some found \<Rightarrow>
             if role u = ''doctor'' \<and>
                (case findProfileByUser (u_id u) (doctorProfiles st) of
                   None \<Rightarrow> True
                 | Some doctorProfile \<Rightarrow> doctorId found \<noteq> dp_id doctorProfile)
             then (st, Failure 403 ''Not authorized'')
             else
               (let appointment = found\<lparr>status := requested\<rparr>
                in (st\<lparr>appointments := saveAppointment appointment (appointments st),
                       notifications := notifications st @
                         [\<lparr>n_userId = patientId appointment,
                           title = ''Appointment Status Updated'',
                           message = ''Your appointment status is now: '' @ requested,
                           n_type = ''appointment'',
                           relatedId = a_id appointment\<rparr>]\<rparr>,
                    Success 200 (AppointmentDoc appointment)))))"

section \<open>The relational backend: constraints and row-level security\<close>

text \<open>
  The migration's tables as lists of rows. Of each table the columns are kept that a
  constraint or a policy modelled here reads; the other columns are \<^verbatim>\<open>NOT NULL\<close> or
  free text and decide nothing. A statement is run by an authenticated caller, \<open>uid\<close>
  being \<^verbatim>\<open>auth.uid()\<close>; it returns the new database, or \<open>None\<close> when a constraint or
  the \<^verbatim>\<open>WITH CHECK\<close> of a policy refuses it (which of them reports the error is not
  modelled). Row-level security is enabled on every table and no policy allows a
  \<^verbatim>\<open>DELETE\<close> on these four tables or an \<^verbatim>\<open>UPDATE\<close> of \<^verbatim>\<open>reviews\<close>, so such statements
  change nothing. The statements are the inserts into the four tables and the update of
  one appointment row with all its columns set, which is what a status change is. The
  policies also admit updates of a caller's own rows of \<^verbatim>\<open>profiles\<close> and
  \<^verbatim>\<open>doctor_profiles\<close>; they write neither \<^verbatim>\<open>appointments\<close> nor \<^verbatim>\<open>reviews\<close> and are
  not modelled. References from tables outside these four, and the foreign key of
  \<^verbatim>\<open>profiles.id\<close> into the platform's \<^verbatim>\<open>auth.users\<close>, are not checked.
\<close>

type_synonym uuid = nat

record profile_row =
  pr_id :: uuid
  pr_email :: string
  pr_role :: string

record doctor_row =
  dr_id :: uuid
  dr_user_id :: uuid
  dr_license_number :: string

record appointment_row =
  ap_id :: uuid
  ap_patient_id :: uuid
  ap_doctor_id :: uuid
  ap_status :: string

record review_row =
  rv_id :: uuid
  rv_appointment_id :: uuid
  rv_patient_id :: uuid
  rv_doctor_id :: uuid
  rv_rating :: int

record database =
  profiles_t :: "profile_row list"
  doctor_profiles_t :: "doctor_row list"
  appointments_t :: "appointment_row list"
  reviews_t :: "review_row list"

definition empty_database :: database where
  "empty_database = \<lparr>profiles_t = [], doctor_profiles_t = [], appointments_t = [], reviews_t = []\<rparr>"

text \<open>\<^verbatim>\<open>SELECT id FROM doctor_profiles WHERE user_id = auth.uid()\<close>\<close>

definition own_doctor_ids :: "uuid \<Rightarrow> database \<Rightarrow> uuid list" where
  "own_doctor_ids uid db = map dr_id (filter (\<lambda>d. dr_user_id d = uid) (doctor_profiles_t db))"

text \<open>The \<^verbatim>\<open>USING\<close> and \<^verbatim>\<open>WITH CHECK\<close> expression of the policies on \<^verbatim>\<open>appointments\<close>
  for \<^verbatim>\<open>SELECT\<close> and \<^verbatim>\<open>UPDATE\<close>.\<close>

definition own_appointment :: "uuid \<Rightarrow> database \<Rightarrow> appointment_row \<Rightarrow> bool" where
  "own_appointment uid db a =
     (ap_patient_id a = uid \<or> ap_doctor_id a \<in> set (own_doctor_ids uid db))"

text \<open>\<^verbatim>\<open>SELECT id FROM appointments WHERE patient_id = auth.uid() AND status = 'completed'\<close>,
  read through the \<^verbatim>\<open>SELECT\<close> policy of the table.\<close>

definition completed_own_ids :: "uuid \<Rightarrow> database \<Rightarrow> uuid list" where
  "completed_own_ids uid db =
     map ap_id (filter (\<lambda>a. ap_patient_id a = uid \<and> ap_status a = ''completed'')
       (filter (own_appointment uid db) (appointments_t db)))"

definition status_check :: "string \<Rightarrow> bool" where
  "status_check s =
     (s \<in> set [''pending'', ''confirmed'', ''completed'', ''cancelled'', ''rescheduled''])"

datatype statement =
  InsertProfile profile_row
  | InsertDoctorProfile doctor_row
  | InsertAppointment appointment_row
  | UpdateAppointment uuid appointment_row
  | InsertReview review_row

fun exec :: "uuid \<Rightarrow> statement \<Rightarrow> database \<Rightarrow> database option" where
  "exec uid (InsertProfile r) db =
     (if uid = pr_id r
         \<and> pr_id r \<notin> set (map pr_id (profiles_t db))
         \<and> pr_email r \<notin> set (map pr_email (profiles_t db))
         \<and> pr_role r \<in> set [''patient'', ''doctor'', ''admin'']
      then Some (db\<lparr>profiles_t := profiles_t db @ [r]\<rparr>) else None)"
| "exec uid (InsertDoctorProfile r) db =
     (if dr_user_id r = uid
         \<and> dr_id r \<notin> set (map dr_id (doctor_profiles_t db))
         \<and> dr_user_id r \<notin> set (map dr_user_id (doctor_profiles_t db))
         \<and> dr_user_id r \<in> set (map pr_id (profiles_t db))
         \<and> dr_license_number r \<notin> set (map dr_license_number (doctor_profiles_t db))
      then Some (db\<lparr>doctor_profiles_t := doctor_profiles_t db @ [r]\<rparr>) else None)"
| "exec uid (InsertAppointment r) db =
     (if ap_patient_id r = uid
         \<and> ap_id r \<notin> set (map ap_id (appointments_t db))
         \<and> ap_patient_id r \<in> set (map pr_id (profiles_t db))
         \<and> ap_doctor_id r \<in> set (map dr_id (doctor_profiles_t db))
         \<and> status_check (ap_status r)
      then Some (db\<lparr>appointments_t := appointments_t db @ [r]\<rparr>) else None)"
| "exec uid (UpdateAppointment i r) db =
     (if filter (\<lambda>a. ap_id a = i \<and> own_appointment uid db a) (appointments_t db) = []
      then Some db
      else if own_appointment uid db r
         \<and> (ap_id r = i \<or>
              (ap_id r \<notin> set (map ap_id (appointments_t db))
               \<and> i \<notin> set (map rv_appointment_id (reviews_t db))))
         \<and> ap_patient_id r \<in> set (map pr_id (profiles_t db))
         \<and> ap_doctor_id r \<in> set (map dr_id (doctor_profiles_t db))
         \<and> status_check (ap_status r)
      then Some (db\<lparr>appointments_t :=
                    map (\<lambda>a. if ap_id a = i \<and> own_appointment uid db a then r else a)
                      (appointments_t db)\<rparr>)
      else None)"
| "exec uid (InsertReview r) db =
     (if rv_patient_id r = uid
         \<and> rv_appointment_id r \<in> set (completed_own_ids uid db)
         \<and> rv_id r \<notin> set (map rv_id (reviews_t db))
         \<and> rv_appointment_id r \<notin> set (map rv_appointment_id (reviews_t db))
         \<and> rv_appointment_id r \<in> set (map ap_id (appointments_t db))
         \<and> rv_patient_id r \<in> set (map pr_id (profiles_t db))
         \<and> rv_doctor_id r \<in> set (map dr_id (doctor_profiles_t db))
         \<and> 1 \<le> rv_rating r \<and> rv_rating r \<le> 5
      then Some (db\<lparr>reviews_t := reviews_t db @ [r]\<rparr>) else None)"

text \<open>A session: each statement runs on the database its predecessors left; a refused
  statement leaves the database as it was.\<close>

fun run :: "database \<Rightarrow> (uuid \<times> statement) list \<Rightarrow> database" where
  "run db [] = db"
| "run db ((uid, s) # rest) =
     run (case exec uid s db of None \<Rightarrow> db | Some db' \<Rightarrow> db') rest"

text \<open>
  The trigger \<^verbatim>\<open>update_doctor_rating\<close> runs after each insert into \<^verbatim>\<open>reviews\<close> and writes
  only \<^verbatim>\<open>doctor_profiles.rating\<close>, a column no constraint or policy above reads. Its
  value is \<^verbatim>\<open>AVG(rating)::decimal(3,2)\<close> over the reviews of the new row's doctor: the
  exact mean, rounded to two decimals with halves away from zero, \<^verbatim>\<open>NULL\<close> over no
  rows, and an overflow error from 9.995 on.
\<close>

datatype numeric = Null | Numeric rat | NumericOverflow

definition round2 :: "rat \<Rightarrow> rat" where
  "round2 x =
     (if 0 \<le> x then of_int \<lfloor>x * 100 + 1 / 2\<rfloor> / 100
      else - (of_int \<lfloor>- x * 100 + 1 / 2\<rfloor> / 100))"

definition update_doctor_rating_value :: "review_row list \<Rightarrow> uuid \<Rightarrow> numeric" where
  "update_doctor_rating_value rows new_doctor_id =
     (let ratings = map rv_rating (filter (\<lambda>r. rv_doctor_id r = new_doctor_id) rows)
      in if ratings = [] then Null
         else (let rounded = round2 (of_int (sum_list ratings) / of_nat (length ratings))
               in if \<bar>rounded\<bar> < 10 then Numeric rounded else NumericOverflow))"

section \<open>Example data\<close>

text \<open>A small store: two patients, two doctors with one profile each, one pending and
  one confirmed appointment.\<close>

definition alice :: user where
  "alice = \<lparr>u_id = 1, email = ''alice@example.org'', passwordHash = ''h1'',
     fullName = ''Alice'', role = ''patient''\<rparr>"

definition bob :: user where
  "bob = \<lparr>u_id = 2, email = ''bob@example.org'', passwordHash = ''h2'',
     fullName = ''Bob'', role = ''patient''\<rparr>"

definition carol :: user where
  "carol = \<lparr>u_id = 3, email = ''carol@example.org'', passwordHash = ''h3'',
     fullName = ''Carol'', role = ''doctor''\<rparr>"

definition dan :: user where
  "dan = \<lparr>u_id = 4, email = ''dan@example.org'', passwordHash = ''h4'',
     fullName = ''Dan'', role = ''doctor''\<rparr>"

definition carol_profile :: doctorProfile where
  "carol_profile = \<lparr>dp_id = 10, userId = 3, rating = 0, totalConsultations = 0\<rparr>"

definition dan_profile :: doctorProfile where
  "dan_profile = \<lparr>dp_id = 11, userId = 4, rating = 0, totalConsultations = 0\<rparr>"

definition visit_a :: appointment where
  "visit_a = \<lparr>a_id = 100, patientId = 1, doctorId = 10, appointmentDate = 20,
     appointmentTime = ''09:30'', status = ''pending'', reason = ''cough''\<rparr>"

definition visit_b :: appointment where
  "visit_b = \<lparr>a_id = 101, patientId = 2, doctorId = 11, appointmentDate = 10,
     appointmentTime = ''14:00'', status = ''confirmed'', reason = ''checkup''\<rparr>"

definition clinic :: store where
  "clinic = \<lparr>users = [alice, bob, carol, dan], doctorProfiles = [carol_profile, dan_profile],
     appointments = [visit_a, visit_b], notifications = [], reviews = []\<rparr>"

text \<open>The same store after three reviews of the first doctor (4, 5, 4) and one of the
  second, and the same reviews as rows of the relational table.\<close>

definition reviewed :: store where
  "reviewed = clinic\<lparr>reviews :=
     [\<lparr>r_doctorId = 10, r_rating = 4\<rparr>, \<lparr>r_doctorId = 10, r_rating = 5\<rparr>,
      \<lparr>r_doctorId = 11, r_rating = 2\<rparr>, \<lparr>r_doctorId = 10, r_rating = 4\<rparr>]\<rparr>"

definition review_rows :: "review_row list" where
  "review_rows =
     [\<lparr>rv_id = 1, rv_appointment_id = 100, rv_patient_id = 1, rv_doctor_id = 10, rv_rating = 4\<rparr>,
      \<lparr>rv_id = 2, rv_appointment_id = 102, rv_patient_id = 2, rv_doctor_id = 10, rv_rating = 5\<rparr>,
      \<lparr>rv_id = 3, rv_appointment_id = 101, rv_patient_id = 2, rv_doctor_id = 11, rv_rating = 2\<rparr>,
      \<lparr>rv_id = 4, rv_appointment_id = 103, rv_patient_id = 1, rv_doctor_id = 10, rv_rating = 4\<rparr>]"

text \<open>Stand-ins for the two parameters of the registration handler.\<close>

definition refuse_create :: "string \<Rightarrow> string \<Rightarrow> string \<Rightarrow> string \<Rightarrow> string + user" where
  "refuse_create e p f r = Inl ''not reached''"

definition fixed_token :: "oid \<Rightarrow> string" where
  "fixed_token i = ''token''"

text \<open>
  A booking request whose fields are all JSON strings, and the casts on the values it
  uses: the hexadecimal string is the ObjectId 99 (hexadecimal 63), which no profile of
  the store has, the date is midnight UTC of 31 January 2025 in milliseconds, and a
  string is cast to itself. These casts refuse every other id and date.
\<close>

definition sample_casts :: "string casts" where
  "sample_casts =
     \<lparr>castObjectId = (\<lambda>j. if j = ''000000000000000000000063'' then Casted 99
                          else CastFailed ''Cast to ObjectId failed''),
      castDate = (\<lambda>j. if j = ''2025-01-31'' then Casted 1738281600000
                      else CastFailed ''Cast to date failed''),
      castString = (\<lambda>j. Casted j)\<rparr>"

definition request_unknown_doctor :: "string appointment_body" where
  "request_unknown_doctor =
     \<lparr>b_doctorId = Some ''000000000000000000000063'', b_appointmentDate = Some ''2025-01-31'',
      b_appointmentTime = Some ''16:45'', b_reason = Some '' headache ''\<rparr>"

text \<open>A session on the relational database: a patient and a doctor register, the doctor
  creates a profile, the patient books; then the doctor marks the visit completed.\<close>

definition first_visit :: "(uuid \<times> statement) list" where
  "first_visit =
     [(1, InsertProfile \<lparr>pr_id = 1, pr_email = ''alice@example.org'', pr_role = ''patient''\<rparr>),
      (3, InsertProfile \<lparr>pr_id = 3, pr_email = ''carol@example.org'', pr_role = ''doctor''\<rparr>),
      (3, InsertDoctorProfile \<lparr>dr_id = 10, dr_user_id = 3, dr_license_number = ''L-1''\<rparr>),
      (1, InsertAppointment
            \<lparr>ap_id = 100, ap_patient_id = 1, ap_doctor_id = 10, ap_status = ''pending''\<rparr>)]"

definition visit_done :: "(uuid \<times> statement) list" where
  "visit_done = first_visit @
     [(3, UpdateAppointment 100
            \<lparr>ap_id = 100, ap_patient_id = 1, ap_doctor_id = 10, ap_status = ''completed''\<rparr>)]"

definition first_review :: review_row where
  "first_review =
     \<lparr>rv_id = 1, rv_appointment_id = 100, rv_patient_id = 1, rv_doctor_id = 10, rv_rating = 5\<rparr>"

lemmas example_defs =
  alice_def bob_def carol_def dan_def carol_profile_def dan_profile_def
  visit_a_def visit_b_def clinic_def

section \<open>Facts about the collections\<close>

lemma findProfileByUser_Some:
  "findProfileByUser uid ps = Some p \<Longrightarrow> p \<in> set ps \<and> userId p = uid"
  by (auto simp add: findProfileByUser_def find_Some_iff)

lemma distinct_profile_ids:
  assumes "distinct (map dp_id ps)" and "p \<in> set ps" and "q \<in> set ps"
    and "dp_id p = dp_id q"
  shows "p = q"
  using assms by (meson distinct_map inj_onD)

lemma find_saveProfile:
  "findProfileById (dp_id d) ps = Some stored \<Longrightarrow>
     findProfileById (dp_id d) (saveProfile d ps) = Some d"
  by (induction ps) (auto simp add: findProfileById_def)

lemma returned_listing: "set (returned (listing found)) = set found"
  by (simp add: listing_def Let_def)

lemma validateAppointment_fields:
  "validateAppointment driver b = [] \<Longrightarrow>
    \<exists>d date time r.
      castField (castObjectId driver) (b_doctorId b) = Casted d
      \<and> castField (castDate driver) (b_appointmentDate b) = Casted date
      \<and> castField (castString driver) (b_appointmentTime b) = Casted time
      \<and> castField (castString driver) (b_reason b) = Casted r"
  by (auto simp add: validateAppointment_def split: casted.splits)

section \<open>Status updates\<close>

lemma complete_requires_confirmed:
  "status a \<noteq> ''confirmed'' \<Longrightarrow>
     complete st a = Inl (Error ''Only confirmed appointments can be completed'')"
  by (simp add: complete_def)

lemma patch_status_keeps_profiles:
  "doctorProfiles (fst (patch_status st u i requested)) = doctorProfiles st"
  by (simp add: patch_status_def Let_def split: option.splits)

text \<open>Whatever the current status is, a caller who is not a doctor completes any
  appointment that exists.\<close>

lemma patch_status_completes_from_any_status:
  assumes "findAppointmentById i (appointments st) = Some a" and "role u \<noteq> ''doctor''"
  shows "snd (patch_status st u i ''completed'')
    = Success 200 (AppointmentDoc (a\<lparr>status := ''completed''\<rparr>))"
  using assms by (simp add: patch_status_def Let_def)

lemma patch_status_notifies_patient:
  assumes "succeeded (snd (patch_status st u i requested))"
  shows "\<exists>a. findAppointmentById i (appointments st) = Some a
    \<and> notifications (fst (patch_status st u i requested))
        = notifications st @
            [\<lparr>n_userId = patientId a, title = ''Appointment Status Updated'',
              message = ''Your appointment status is now: '' @ requested,
              n_type = ''appointment'', relatedId = a_id a\<rparr>]"
  using assms by (auto simp add: patch_status_def Let_def split: option.splits if_splits)

text \<open>
  Claim C1: a status update to \<open>completed\<close> fails, and leaves the appointment as it is,
  unless the current status is \<open>confirmed\<close>. The model method \<open>complete\<close> does that
  (\<open>complete_requires_confirmed\<close>), but the route never reads the current status: here
  a patient's request moves the pending appointment 100 straight to \<open>completed\<close>, with
  a success response and a notification.
\<close>

theorem patch_status_completes_pending:
  "status visit_a = ''pending''
   \<and> findAppointmentById 100 (appointments clinic) = Some visit_a
   \<and> patch_status clinic alice 100 ''completed'' =
       (clinic\<lparr>appointments := [visit_a\<lparr>status := ''completed''\<rparr>, visit_b],
               notifications := [\<lparr>n_userId = 1, title = ''Appointment Status Updated'',
                 message = ''Your appointment status is now: completed'',
                 n_type = ''appointment'', relatedId = 100\<rparr>]\<rparr>,
        Success 200 (AppointmentDoc (visit_a\<lparr>status := ''completed''\<rparr>)))"
  by (simp add: patch_status_def Let_def findAppointmentById_def findProfileByUser_def
      example_defs)

text \<open>
  Claim C3: a successful update to \<open>completed\<close> increments the doctor's
  \<open>totalConsultations\<close> by one and stores one notification for the patient. The route
  stores the notification but writes no doctor profile (\<open>patch_status_keeps_profiles\<close>):
  when the owning doctor completes the confirmed appointment 101 the counters stay
  \<open>[0, 0]\<close>, whereas \<open>complete\<close> on the same appointment makes them \<open>[0, 1]\<close>.
\<close>

theorem patch_status_completed_keeps_counter:
  "status visit_b = ''confirmed''
   \<and> succeeded (snd (patch_status clinic dan 101 ''completed''))
   \<and> map status (appointments (fst (patch_status clinic dan 101 ''completed'')))
       = [''pending'', ''completed'']
   \<and> map totalConsultations (doctorProfiles clinic) = [0, 0]
   \<and> map totalConsultations (doctorProfiles (fst (patch_status clinic dan 101 ''completed'')))
       = [0, 0]
   \<and> map n_userId (notifications (fst (patch_status clinic dan 101 ''completed'')))
       = [patientId visit_b]
   \<and> map message (notifications (fst (patch_status clinic dan 101 ''completed'')))
       = [''Your appointment status is now: completed'']
   \<and> complete clinic visit_b
       = Inr (clinic\<lparr>appointments := [visit_a, visit_b\<lparr>status := ''completed''\<rparr>],
                     doctorProfiles := [carol_profile, dan_profile\<lparr>totalConsultations := 1\<rparr>]\<rparr>)"
  by (simp add: patch_status_def complete_def Let_def findAppointmentById_def
      findProfileByUser_def example_defs)

text \<open>
  Claim C5, as stated: each of the five enum values, \<open>pending\<close> among them, passes the
  validation of the requested status. The route's list has four values, and
  \<open>pending\<close> is answered with 400.
\<close>

theorem patch_status_pending_counterexample:
  "patch_status clinic carol 100 ''pending'' = (clinic, Failure 400 ''Invalid status'')"
  by (simp add: patch_status_def)

text \<open>
  Claim C5, amended: the response is 400 \<open>Invalid status\<close> exactly when the requested
  status is none of \<open>confirmed\<close>, \<open>cancelled\<close>, \<open>completed\<close>, \<open>rescheduled\<close>, and
  then the store is unchanged.
\<close>

theorem patch_status_validation:
  "(snd (patch_status st u i requested) = Failure 400 ''Invalid status'')
     = (requested \<notin> set [''confirmed'', ''cancelled'', ''completed'', ''rescheduled''])
   \<and> (requested \<notin> set [''confirmed'', ''cancelled'', ''completed'', ''rescheduled'']
        \<longrightarrow> fst (patch_status st u i requested) = st)"
proof (cases "requested \<in> set [''confirmed'', ''cancelled'', ''completed'', ''rescheduled'']")
  case True
  then have "snd (patch_status st u i requested) \<noteq> Failure 400 ''Invalid status''"
    by (simp add: patch_status_def Let_def split: option.splits)
  with True show ?thesis by simp
next
  case False
  then have "patch_status st u i requested = (st, Failure 400 ''Invalid status'')"
    by (simp add: patch_status_def)
  with False show ?thesis by simp
qed

theorem patch_status_validation_witness:
  "snd (patch_status clinic carol 100 ''confirmed'') \<noteq> Failure 400 ''Invalid status''
   \<and> ''pending'' \<notin> set [''confirmed'', ''cancelled'', ''completed'', ''rescheduled'']
   \<and> snd (patch_status clinic carol 100 ''pending'') = Failure 400 ''Invalid status''
   \<and> fst (patch_status clinic carol 100 ''pending'') = clinic"
  using patch_status_validation [of clinic carol 100 "''confirmed''"]
    patch_status_validation [of clinic carol 100 "''pending''"]
  by simp

text \<open>
  Claim C4, as stated: the update is refused with 403 if and only if the caller is a
  doctor whose profile is not the appointment's doctor. The validation of the status
  comes first: a doctor who does not own appointment 101 and asks for \<open>pending\<close> gets
  400, not 403.
\<close>

theorem patch_status_forbidden_counterexample:
  "role carol = ''doctor''
   \<and> findAppointmentById 101 (appointments clinic) = Some visit_b
   \<and> findProfileByUser (u_id carol) (doctorProfiles clinic) = Some carol_profile
   \<and> doctorId visit_b \<noteq> dp_id carol_profile
   \<and> snd (patch_status clinic carol 101 ''pending'') = Failure 400 ''Invalid status''
   \<and> snd (patch_status clinic carol 101 ''pending'') \<noteq> Failure 403 ''Not authorized''"
  by (simp add: patch_status_def findAppointmentById_def findProfileByUser_def example_defs)

text \<open>
  Claim C4, amended: the response is 403 exactly when the requested status passes the
  validation, the appointment exists, the caller's role is \<open>doctor\<close> and no profile
  found for the caller is the appointment's doctor; the store is then unchanged. A
  caller whose role is \<open>patient\<close> never gets 403, whoever the appointment's patient is.
\<close>

theorem patch_status_forbidden_iff:
  "(snd (patch_status st u i requested) = Failure 403 ''Not authorized'')
     = (requested \<in> set [''confirmed'', ''cancelled'', ''completed'', ''rescheduled'']
        \<and> role u = ''doctor''
        \<and> (\<exists>a. findAppointmentById i (appointments st) = Some a
              \<and> \<not> (\<exists>p. findProfileByUser (u_id u) (doctorProfiles st) = Some p
                        \<and> doctorId a = dp_id p)))
   \<and> (role u = ''patient''
        \<longrightarrow> snd (patch_status st u i requested) \<noteq> Failure 403 ''Not authorized'')
   \<and> (snd (patch_status st u i requested) = Failure 403 ''Not authorized''
        \<longrightarrow> fst (patch_status st u i requested) = st)"
proof (cases "requested \<in> set [''confirmed'', ''cancelled'', ''completed'', ''rescheduled'']")
  case False
  then have "patch_status st u i requested = (st, Failure 400 ''Invalid status'')"
    by (simp add: patch_status_def)
  with False show ?thesis by simp
next
  case True
  show ?thesis
  proof (cases "findAppointmentById i (appointments st)")
    case None
    with True have "patch_status st u i requested = (st, Failure 404 ''Appointment not found'')"
      by (simp add: patch_status_def)
    with None show ?thesis by simp
  next
    case (Some a)
    show ?thesis
    proof (cases "role u = ''doctor'' \<and>
        \<not> (\<exists>p. findProfileByUser (u_id u) (doctorProfiles st) = Some p \<and> doctorId a = dp_id p)")
      case refused: True
      with True Some
      have "patch_status st u i requested = (st, Failure 403 ''Not authorized'')"
        by (auto simp add: patch_status_def split: option.splits)
      with True Some refused show ?thesis by simp
    next
      case allowed: False
      with True Some have "succeeded (snd (patch_status st u i requested))"
        by (auto simp add: patch_status_def Let_def split: option.splits)
      then have "snd (patch_status st u i requested) \<noteq> Failure 403 ''Not authorized''"
        by auto
      with True Some allowed show ?thesis by auto
    qed
  qed
qed

theorem patch_status_forbidden_iff_witness:
  "''confirmed'' \<in> set [''confirmed'', ''cancelled'', ''completed'', ''rescheduled'']
   \<and> role carol = ''doctor''
   \<and> findAppointmentById 101 (appointments clinic) = Some visit_b
   \<and> findProfileByUser (u_id carol) (doctorProfiles clinic) = Some carol_profile
   \<and> doctorId visit_b \<noteq> dp_id carol_profile
   \<and> patch_status clinic carol 101 ''confirmed'' = (clinic, Failure 403 ''Not authorized'')
   \<and> role alice = ''patient''
   \<and> patientId visit_b \<noteq> u_id alice
   \<and> snd (patch_status clinic alice 101 ''confirmed'') \<noteq> Failure 403 ''Not authorized''
   \<and> succeeded (snd (patch_status clinic alice 101 ''confirmed''))"
  using patch_status_forbidden_iff [of clinic carol 101 "''confirmed''"]
    patch_status_forbidden_iff [of clinic alice 101 "''confirmed''"]
  by (simp add: patch_status_def Let_def findAppointmentById_def findProfileByUser_def
      example_defs)

section \<open>Ratings\<close>

lemma foldl_ratings:
  "foldl (\<lambda>sum r. sum + r_rating r) acc found = acc + sum_list (map r_rating found)"
  by (induction found arbitrary: acc) (simp_all add: add.assoc)

text \<open>With at least one review the stored rating is the exact mean of the ratings of
  that doctor's reviews; no rounding takes place.\<close>

lemma updateRating_mean:
  assumes "filter (\<lambda>r. r_doctorId r = dp_id this) (reviews st) = found" and "found \<noteq> []"
    and "updateRating st this newRating = Inr st'"
    and "findProfileById (dp_id this) (doctorProfiles st) = Some stored"
  shows "map_option rating (findProfileById (dp_id this) (doctorProfiles st'))
      = Some (sum_list (map r_rating found) / of_nat (length found))"
proof -
  let ?d = "this\<lparr>rating := sum_list (map r_rating found) / of_nat (length found)\<rparr>"
  have "findProfileById (dp_id ?d) (saveProfile ?d (doctorProfiles st)) = Some ?d"
    using assms(4) find_saveProfile [of ?d "doctorProfiles st" stored] by simp
  with assms show ?thesis
    by (auto simp add: updateRating_def Let_def foldl_ratings split: if_splits)
qed

text \<open>The two examples the specification gives come out as it says, since their means
  have at most two decimals.\<close>

lemma updateRating_examples:
  "updateRating (clinic\<lparr>reviews := [\<lparr>r_doctorId = 10, r_rating = 4\<rparr>,
       \<lparr>r_doctorId = 10, r_rating = 5\<rparr>, \<lparr>r_doctorId = 10, r_rating = 3\<rparr>]\<rparr>) carol_profile 3
     = Inr (clinic\<lparr>reviews := [\<lparr>r_doctorId = 10, r_rating = 4\<rparr>,
              \<lparr>r_doctorId = 10, r_rating = 5\<rparr>, \<lparr>r_doctorId = 10, r_rating = 3\<rparr>],
            doctorProfiles := [carol_profile\<lparr>rating := 4\<rparr>, dan_profile]\<rparr>)
   \<and> updateRating (clinic\<lparr>reviews := [\<lparr>r_doctorId = 10, r_rating = 4\<rparr>,
       \<lparr>r_doctorId = 10, r_rating = 5\<rparr>, \<lparr>r_doctorId = 10, r_rating = 3\<rparr>,
       \<lparr>r_doctorId = 10, r_rating = 5\<rparr>]\<rparr>) carol_profile 5
     = Inr (clinic\<lparr>reviews := [\<lparr>r_doctorId = 10, r_rating = 4\<rparr>,
              \<lparr>r_doctorId = 10, r_rating = 5\<rparr>, \<lparr>r_doctorId = 10, r_rating = 3\<rparr>,
              \<lparr>r_doctorId = 10, r_rating = 5\<rparr>],
            doctorProfiles := [carol_profile\<lparr>rating := 425 / 100\<rparr>, dan_profile]\<rparr>)"
  by (simp add: updateRating_def validateRating_def Let_def example_defs)

text \<open>
  Claim C2: with one review or more, the stored rating is the mean of the doctor's
  ratings rounded to two decimal places. The relational trigger rounds
  (\<^verbatim>\<open>::decimal(3,2)\<close>); \<open>updateRating\<close> stores the quotient as it is. For the ratings
  4, 5, 4 it stores 13/3 (the double 4.333333333333333), the trigger's value is 4.33.
\<close>

theorem updateRating_keeps_all_decimals:
  "updateRating reviewed carol_profile 4
     = Inr (reviewed\<lparr>doctorProfiles := [carol_profile\<lparr>rating := 13 / 3\<rparr>, dan_profile]\<rparr>)
   \<and> round2 (13 / 3) = 433 / 100
   \<and> (13 / 3 :: rat) \<noteq> round2 (13 / 3)
   \<and> update_doctor_rating_value review_rows 10 = Numeric (433 / 100)"
proof -
  have rounded: "round2 (13 / 3) = 433 / 100"
    by (simp add: round2_def floor_eq_iff)
  have stored: "updateRating reviewed carol_profile 4
     = Inr (reviewed\<lparr>doctorProfiles := [carol_profile\<lparr>rating := 13 / 3\<rparr>, dan_profile]\<rparr>)"
    by (simp add: updateRating_def validateRating_def Let_def reviewed_def example_defs)
  have trigger: "update_doctor_rating_value review_rows 10 = Numeric (433 / 100)"
    by (simp add: update_doctor_rating_value_def review_rows_def Let_def rounded)
  show ?thesis
    by (simp add: rounded stored trigger)
qed

text \<open>
  Claim C8: when no review of the doctor is in the store, \<open>updateRating\<close> stores the
  newly submitted rating itself. A rating is a value the schema's bounds 0 and 5 admit,
  and \<open>this\<close> is a profile of the collection.
\<close>

theorem updateRating_without_reviews:
  assumes "filter (\<lambda>r. r_doctorId r = dp_id this) (reviews st) = []"
    and "0 \<le> newRating" and "newRating \<le> 5"
    and "findProfileById (dp_id this) (doctorProfiles st) = Some stored"
  shows "\<exists>st'. updateRating st this newRating = Inr st'
          \<and> findProfileById (dp_id this) (doctorProfiles st') = Some (this\<lparr>rating := newRating\<rparr>)"
proof -
  have "findProfileById (dp_id (this\<lparr>rating := newRating\<rparr>))
          (saveProfile (this\<lparr>rating := newRating\<rparr>) (doctorProfiles st))
        = Some (this\<lparr>rating := newRating\<rparr>)"
    using assms(4) find_saveProfile [of "this\<lparr>rating := newRating\<rparr>" "doctorProfiles st" stored]
    by simp
  with assms show ?thesis
    by (simp add: updateRating_def validateRating_def Let_def)
qed

theorem updateRating_without_reviews_witness:
  "filter (\<lambda>r. r_doctorId r = dp_id carol_profile) (reviews clinic) = []
   \<and> (0::rat) \<le> 4 \<and> (4::rat) \<le> 5
   \<and> findProfileById (dp_id carol_profile) (doctorProfiles clinic) = Some carol_profile
   \<and> updateRating clinic carol_profile 4
       = Inr (clinic\<lparr>doctorProfiles := [carol_profile\<lparr>rating := 4\<rparr>, dan_profile]\<rparr>)"
  using updateRating_without_reviews [of carol_profile clinic 4 carol_profile]
  by (simp add: updateRating_def validateRating_def Let_def findProfileById_def example_defs)

section \<open>Listing appointments\<close>

text \<open>
  Claim C7: a patient's listing holds only appointments whose \<open>patientId\<close> is the
  caller's id, a doctor's only appointments whose \<open>doctorId\<close> is the id of the caller's
  profile; so a patient's listing has no appointment of another patient, and a
  doctor's none of another doctor's profile (profile ids being unique, as
  \<^verbatim>\<open>_id\<close>s are). Every listed appointment is one of the store.
\<close>

theorem get_appointments_scoped:
  "set (returned (get_appointments st u)) \<subseteq> set (appointments st)
   \<and> (role u = ''patient'' \<longrightarrow>
        (\<forall>a\<in>set (returned (get_appointments st u)). patientId a = u_id u))
   \<and> (role u = ''doctor'' \<longrightarrow>
        (\<forall>a\<in>set (returned (get_appointments st u)).
           \<exists>p. findProfileByUser (u_id u) (doctorProfiles st) = Some p \<and> doctorId a = dp_id p))
   \<and> (role u = ''patient'' \<and> u_id v \<noteq> u_id u \<longrightarrow>
        (\<forall>a\<in>set (returned (get_appointments st u)). patientId a \<noteq> u_id v))
   \<and> (role u = ''doctor'' \<and> u_id v \<noteq> u_id u \<and> distinct (map dp_id (doctorProfiles st)) \<longrightarrow>
        (\<forall>a\<in>set (returned (get_appointments st u)).
           \<forall>q. findProfileByUser (u_id v) (doctorProfiles st) = Some q \<longrightarrow> doctorId a \<noteq> dp_id q))"
proof (intro conjI impI)
  show "set (returned (get_appointments st u)) \<subseteq> set (appointments st)"
    by (auto simp add: get_appointments_def returned_listing split: option.splits)
next
  assume "role u = ''patient''"
  then show "\<forall>a\<in>set (returned (get_appointments st u)). patientId a = u_id u"
    by (simp add: get_appointments_def returned_listing)
next
  assume "role u = ''doctor''"
  then show "\<forall>a\<in>set (returned (get_appointments st u)).
      \<exists>p. findProfileByUser (u_id u) (doctorProfiles st) = Some p \<and> doctorId a = dp_id p"
    by (simp add: get_appointments_def returned_listing split: option.splits)
next
  assume "role u = ''patient'' \<and> u_id v \<noteq> u_id u"
  then show "\<forall>a\<in>set (returned (get_appointments st u)). patientId a \<noteq> u_id v"
    by (simp add: get_appointments_def returned_listing)
next
  assume h: "role u = ''doctor'' \<and> u_id v \<noteq> u_id u \<and> distinct (map dp_id (doctorProfiles st))"
  show "\<forall>a\<in>set (returned (get_appointments st u)).
      \<forall>q. findProfileByUser (u_id v) (doctorProfiles st) = Some q \<longrightarrow> doctorId a \<noteq> dp_id q"
  proof (intro ballI allI impI)
    fix a q
    assume a: "a \<in> set (returned (get_appointments st u))"
      and q: "findProfileByUser (u_id v) (doctorProfiles st) = Some q"
    from h a obtain p where p: "findProfileByUser (u_id u) (doctorProfiles st) = Some p"
      and ap: "doctorId a = dp_id p"
      by (auto simp add: get_appointments_def returned_listing split: option.splits)
    from findProfileByUser_Some [OF p] findProfileByUser_Some [OF q] h
    have "p \<noteq> q" and "p \<in> set (doctorProfiles st)" and "q \<in> set (doctorProfiles st)"
      by auto
    with h distinct_profile_ids [of "doctorProfiles st" p q] have "dp_id p \<noteq> dp_id q"
      by blast
    with ap show "doctorId a \<noteq> dp_id q" by simp
  qed
qed

theorem get_appointments_scoped_witness:
  "role alice = ''patient'' \<and> u_id bob \<noteq> u_id alice
   \<and> map patientId (returned (get_appointments clinic alice)) = [u_id alice]
   \<and> map a_id (returned (get_appointments clinic alice)) = [100]
   \<and> map a_id (returned (get_appointments clinic bob)) = [101]
   \<and> role carol = ''doctor'' \<and> u_id dan \<noteq> u_id carol
   \<and> distinct (map dp_id (doctorProfiles clinic))
   \<and> findProfileByUser (u_id carol) (doctorProfiles clinic) = Some carol_profile
   \<and> findProfileByUser (u_id dan) (doctorProfiles clinic) = Some dan_profile
   \<and> map doctorId (returned (get_appointments clinic carol)) = [dp_id carol_profile]
   \<and> map a_id (returned (get_appointments clinic carol)) = [100]
   \<and> map a_id (returned (get_appointments clinic dan)) = [101]"
  using get_appointments_scoped [of clinic alice bob] get_appointments_scoped [of clinic carol dan]
  by (simp add: get_appointments_def listing_def findProfileByUser_def example_defs)

section \<open>Registration\<close>

text \<open>
  Claim C9, as stated: every registration whose email is that of a registered user is
  answered 400 with the message \<open>Email already registered\<close>. The check for missing
  fields comes first: without a password the message is another one.
\<close>

theorem post_register_duplicate_counterexample:
  "findUserByEmail ''alice@example.org'' (users clinic) = Some alice
   \<and> post_register refuse_create fixed_token clinic
        \<lparr>b_email = Some ''alice@example.org'', b_password = None,
         b_fullName = Some ''Alice'', b_role = Some ''patient''\<rparr>
      = (clinic, Failure 400 ''Please provide all required fields'')"
  by (simp add: post_register_def findUserByEmail_def example_defs)

text \<open>
  Claim C9, amended: a registration whose email is that of a registered user is
  answered with status 400 and \<^verbatim>\<open>success: false\<close> and the store is unchanged, so no
  user is created; the message is \<open>Email already registered\<close> when the body carries
  all four required fields, and \<open>Please provide all required fields\<close> otherwise.
\<close>

theorem post_register_duplicate_email:
  assumes "b_email b = Some e" and "findUserByEmail e (users st) = Some existing"
  shows "fst (post_register userCreate generateToken st b) = st
    \<and> status_code (snd (post_register userCreate generateToken st b)) = 400
    \<and> \<not> succeeded (snd (post_register userCreate generateToken st b))
    \<and> snd (post_register userCreate generateToken st b)
        = Failure 400
            (if falsy (b_email b) \<or> falsy (b_password b) \<or> falsy (b_fullName b)
                \<or> falsy (b_role b)
             then ''Please provide all required fields''
             else ''Email already registered'')"
  using assms by (auto simp add: post_register_def falsy_def split: option.splits)

theorem post_register_duplicate_email_witness:
  "findUserByEmail ''alice@example.org'' (users clinic) = Some alice
   \<and> \<not> falsy (Some ''alice@example.org'') \<and> \<not> falsy (Some ''secret'')
   \<and> \<not> falsy (Some ''Alice'') \<and> \<not> falsy (Some ''patient'')
   \<and> post_register refuse_create fixed_token clinic
        \<lparr>b_email = Some ''alice@example.org'', b_password = Some ''secret'',
         b_fullName = Some ''Alice'', b_role = Some ''patient''\<rparr>
      = (clinic, Failure 400 ''Email already registered'')"
proof -
  have found: "findUserByEmail ''alice@example.org'' (users clinic) = Some alice"
    by (simp add: findUserByEmail_def example_defs)
  show ?thesis
    using found
      post_register_duplicate_email
        [of "\<lparr>b_email = Some ''alice@example.org'', b_password = Some ''secret'',
              b_fullName = Some ''Alice'', b_role = Some ''patient''\<rparr>"
          "''alice@example.org''" clinic alice refuse_create fixed_token]
    by (simp add: falsy_def prod_eq_iff)
qed

section \<open>Booking\<close>

text \<open>The white space of ECMAScript beyond ASCII is trimmed as well: a reason that is
  a no-break space, or an ideographic space between two blanks, is blank.\<close>

lemma trim_unicode_space:
  "trim [CHR 0xC2, CHR 0xA0] = []
   \<and> trim [CHR 0x20, CHR 0xE3, CHR 0x80, CHR 0x80, CHR 0x20] = []
   \<and> trim [CHR 0xEF, CHR 0xBB, CHR 0xBF, CHR ''a'', CHR 0xE2, CHR 0x80, CHR 0xA8] = ''a''"
  by (simp add: trim_def space1_def space2_def space3_def)

lemma post_appointments_invalid:
  "validateAppointment driver b \<noteq> [] \<Longrightarrow>
     post_appointments driver new_id st u b
       = (st, Thrown (ValidationError (validateAppointment driver b)))"
  by (simp add: post_appointments_def split: casted.splits)

text \<open>
  Claim C10, as stated: every booking request of a patient whose \<open>doctorId\<close> matches
  no doctor profile creates a pending appointment and is answered 201. The document is
  validated first: the same request without a reason throws, is answered 500 and stores
  nothing.
\<close>

theorem post_appointments_unknown_doctor_counterexample:
  "castField (castObjectId sample_casts) (b_doctorId request_unknown_doctor) = Casted 99
   \<and> findProfileById 99 (doctorProfiles clinic) = None
   \<and> post_appointments sample_casts 102 clinic alice (request_unknown_doctor\<lparr>b_reason := None\<rparr>)
      = (clinic, Thrown (ValidationError [''Reason for appointment is required'']))"
  by (simp add: post_appointments_def validateAppointment_def castField_def findProfileById_def
      sample_casts_def request_unknown_doctor_def digit_upto_def example_defs)

text \<open>
  Claim C10, amended: a booking request whose fields the driver casts and the schema's
  validators accept, and whose \<open>doctorId\<close> is cast to an id that matches no doctor
  profile, is answered 201 with the new appointment, which is appended to the collection
  with status \<open>pending\<close>, the caller as patient and the unmatched id as doctor; no
  notification is stored.
\<close>

theorem post_appointments_unknown_doctor:
  assumes "validateAppointment driver b = []"
    and "castField (castObjectId driver) (b_doctorId b) = Casted d"
    and "findProfileById d (doctorProfiles st) = None"
  shows "\<exists>a. post_appointments driver new_id st u b
              = (st\<lparr>appointments := appointments st @ [a]\<rparr>, Success 201 (AppointmentDoc a))
          \<and> a_id a = new_id \<and> patientId a = u_id u \<and> doctorId a = d
          \<and> status a = ''pending''
          \<and> notifications (fst (post_appointments driver new_id st u b)) = notifications st"
proof -
  from validateAppointment_fields [OF assms(1)] assms(2)
  obtain date time r where
    fields: "castField (castDate driver) (b_appointmentDate b) = Casted date"
      "castField (castString driver) (b_appointmentTime b) = Casted time"
      "castField (castString driver) (b_reason b) = Casted r"
    by auto
  show ?thesis
    using assms fields by (simp add: post_appointments_def Let_def)
qed

theorem post_appointments_unknown_doctor_witness:
  "validateAppointment sample_casts request_unknown_doctor = []
   \<and> castField (castObjectId sample_casts) (b_doctorId request_unknown_doctor) = Casted 99
   \<and> findProfileById 99 (doctorProfiles clinic) = None
   \<and> post_appointments sample_casts 102 clinic alice request_unknown_doctor
      = (clinic\<lparr>appointments := [visit_a, visit_b,
            \<lparr>a_id = 102, patientId = 1, doctorId = 99, appointmentDate = 1738281600000,
             appointmentTime = ''16:45'', status = ''pending'', reason = ''headache''\<rparr>]\<rparr>,
         Success 201 (AppointmentDoc
            \<lparr>a_id = 102, patientId = 1, doctorId = 99, appointmentDate = 1738281600000,
             appointmentTime = ''16:45'', status = ''pending'', reason = ''headache''\<rparr>))
   \<and> notifications (fst (post_appointments sample_casts 102 clinic alice request_unknown_doctor))
      = []"
proof -
  have trimmed: "trim '' headache '' = ''headache''"
    by (simp add: trim_def space1_def space2_def space3_def)
  have valid: "validateAppointment sample_casts request_unknown_doctor = []"
    by (simp add: validateAppointment_def castField_def sample_casts_def
        request_unknown_doctor_def digit_upto_def trimmed)
  have cast: "castField (castObjectId sample_casts) (b_doctorId request_unknown_doctor) = Casted 99"
    by (simp add: castField_def sample_casts_def request_unknown_doctor_def)
  have unknown: "findProfileById 99 (doctorProfiles clinic) = None"
    by (simp add: findProfileById_def example_defs)
  from post_appointments_unknown_doctor [OF valid cast unknown, of 102 alice] valid cast unknown
  show ?thesis
    by (simp add: post_appointments_def Let_def castField_def sample_casts_def
        request_unknown_doctor_def trimmed example_defs)
qed

section \<open>Reviews in the relational backend\<close>

lemma exec_keeps_reviews_distinct:
  assumes "distinct (map rv_appointment_id (reviews_t db))" and "exec uid s db = Some db'"
  shows "distinct (map rv_appointment_id (reviews_t db'))"
  using assms by (cases s) (auto split: if_splits)

lemma run_keeps_reviews_distinct:
  "distinct (map rv_appointment_id (reviews_t db)) \<Longrightarrow>
     distinct (map rv_appointment_id (reviews_t (run db script)))"
proof (induction script arbitrary: db)
  case Nil
  then show ?case by simp
next
  case (Cons step script)
  obtain uid s where step: "step = (uid, s)" by (cases step)
  show ?case
  proof (cases "exec uid s db")
    case None
    with Cons step show ?thesis by simp
  next
    case (Some db')
    from exec_keeps_reviews_distinct [OF Cons.prems Some]
    have "distinct (map rv_appointment_id (reviews_t db'))" .
    with Cons.IH Some step show ?thesis by simp
  qed
qed

lemma run_append: "run db (xs @ ys) = run (run db xs) ys"
  by (induction xs arbitrary: db) auto

lemma run_first_visit:
  "run empty_database first_visit =
    \<lparr>profiles_t = [\<lparr>pr_id = 1, pr_email = ''alice@example.org'', pr_role = ''patient''\<rparr>,
                   \<lparr>pr_id = 3, pr_email = ''carol@example.org'', pr_role = ''doctor''\<rparr>],
     doctor_profiles_t = [\<lparr>dr_id = 10, dr_user_id = 3, dr_license_number = ''L-1''\<rparr>],
     appointments_t =
       [\<lparr>ap_id = 100, ap_patient_id = 1, ap_doctor_id = 10, ap_status = ''pending''\<rparr>],
     reviews_t = []\<rparr>"
  by (simp add: first_visit_def empty_database_def status_check_def)

lemma run_visit_done:
  "run empty_database visit_done =
    \<lparr>profiles_t = [\<lparr>pr_id = 1, pr_email = ''alice@example.org'', pr_role = ''patient''\<rparr>,
                   \<lparr>pr_id = 3, pr_email = ''carol@example.org'', pr_role = ''doctor''\<rparr>],
     doctor_profiles_t = [\<lparr>dr_id = 10, dr_user_id = 3, dr_license_number = ''L-1''\<rparr>],
     appointments_t =
       [\<lparr>ap_id = 100, ap_patient_id = 1, ap_doctor_id = 10, ap_status = ''completed''\<rparr>],
     reviews_t = []\<rparr>"
  by (simp add: visit_done_def first_visit_def empty_database_def status_check_def
      own_appointment_def own_doctor_ids_def)

text \<open>
  Claim C6: in every database a session of authenticated callers reaches from the empty
  one, no two reviews name the same appointment, and every session keeps it so from any
  database where it holds; an accepted insert of a review names an appointment of the
  caller whose status is \<open>completed\<close>; an insert is refused when no appointment with
  the named id is completed, and when the appointment already has a review.
\<close>

theorem one_review_per_completed_appointment:
  "distinct (map rv_appointment_id (reviews_t (run empty_database script)))
   \<and> (distinct (map rv_appointment_id (reviews_t db))
        \<longrightarrow> distinct (map rv_appointment_id (reviews_t (run db script))))
   \<and> (exec uid (InsertReview r) db = Some db' \<longrightarrow>
        (\<exists>a\<in>set (appointments_t db).
           ap_id a = rv_appointment_id r \<and> ap_status a = ''completed''
           \<and> ap_patient_id a = uid))
   \<and> ((\<forall>a\<in>set (appointments_t db).
          ap_id a = rv_appointment_id r \<longrightarrow> ap_status a \<noteq> ''completed'')
        \<longrightarrow> exec uid (InsertReview r) db = None)
   \<and> (rv_appointment_id r \<in> set (map rv_appointment_id (reviews_t db))
        \<longrightarrow> exec uid (InsertReview r) db = None)"
proof (intro conjI impI)
  show "distinct (map rv_appointment_id (reviews_t (run empty_database script)))"
    by (rule run_keeps_reviews_distinct) (simp add: empty_database_def)
next
  assume "distinct (map rv_appointment_id (reviews_t db))"
  then show "distinct (map rv_appointment_id (reviews_t (run db script)))"
    by (rule run_keeps_reviews_distinct)
next
  assume "exec uid (InsertReview r) db = Some db'"
  then show "\<exists>a\<in>set (appointments_t db).
      ap_id a = rv_appointment_id r \<and> ap_status a = ''completed'' \<and> ap_patient_id a = uid"
    by (auto simp add: completed_own_ids_def split: if_splits)
next
  assume "\<forall>a\<in>set (appointments_t db).
      ap_id a = rv_appointment_id r \<longrightarrow> ap_status a \<noteq> ''completed''"
  then show "exec uid (InsertReview r) db = None"
    by (auto simp add: completed_own_ids_def)
next
  assume "rv_appointment_id r \<in> set (map rv_appointment_id (reviews_t db))"
  then show "exec uid (InsertReview r) db = None" by simp
qed

theorem one_review_per_completed_appointment_witness:
  "exec 1 (InsertReview first_review) (run empty_database first_visit) = None
   \<and> exec 1 (InsertReview first_review) (run empty_database visit_done)
       = Some ((run empty_database visit_done)\<lparr>reviews_t := [first_review]\<rparr>)
   \<and> reviews_t (run empty_database (visit_done @ [(1, InsertReview first_review)]))
       = [first_review]
   \<and> reviews_t (run empty_database (visit_done @
        [(1, InsertReview first_review), (1, InsertReview (first_review\<lparr>rv_id := 2\<rparr>))]))
       = [first_review]
   \<and> distinct (map rv_appointment_id (reviews_t (run empty_database (visit_done @
        [(1, InsertReview first_review), (1, InsertReview (first_review\<lparr>rv_id := 2\<rparr>))]))))
   \<and> exec 1 (InsertReview (first_review\<lparr>rv_id := 2\<rparr>))
         ((run empty_database visit_done)\<lparr>reviews_t := [first_review]\<rparr>) = None"
proof -
  have second: "exec 1 (InsertReview (first_review\<lparr>rv_id := 2\<rparr>))
         ((run empty_database visit_done)\<lparr>reviews_t := [first_review]\<rparr>) = None"
    using one_review_per_completed_appointment
      [where script = "[]" and uid = 1 and r = "first_review\<lparr>rv_id := 2\<rparr>"
         and db = "(run empty_database visit_done)\<lparr>reviews_t := [first_review]\<rparr>"
         and db' = empty_database]
    by (simp add: first_review_def)
  have refused: "exec 1 (InsertReview first_review) (run empty_database first_visit) = None"
    using one_review_per_completed_appointment
      [where script = "[]" and uid = 1 and r = first_review
         and db = "run empty_database first_visit" and db' = empty_database]
    by (simp add: run_first_visit first_review_def)
  have accepted: "exec 1 (InsertReview first_review) (run empty_database visit_done)
       = Some ((run empty_database visit_done)\<lparr>reviews_t := [first_review]\<rparr>)"
    by (simp add: run_visit_done first_review_def completed_own_ids_def own_appointment_def)
  show ?thesis
    using one_review_per_completed_appointment
      [where script = "visit_done @
            [(1, InsertReview first_review), (1, InsertReview (first_review\<lparr>rv_id := 2\<rparr>))]"
         and uid = 1 and r = first_review and db = "run empty_database visit_done"
         and db' = "(run empty_database visit_done)\<lparr>reviews_t := [first_review]\<rparr>"]
      refused accepted second
    by (simp add: run_append first_review_def)
qed

end
